theory Spec2Isabelle
  imports Main "HOL-Library.Word" "HOL-Library.Signed_Division"
begin

section \<open>Machine model\<close>

text \<open>
  array.h declares \<open>typedef __int64 ptrdiff_t\<close>: the target is a 64-bit one. Sizes
  (\<open>size_t\<close>), addresses and pointer differences are 64-bit words; \<open>+\<close>, \<open>-\<close>
  and \<open>*\<close> on them wrap modulo \<open>2 ^ 64\<close>. A \<open>ptrdiff_t\<close> is read with \<open>sint\<close>.
\<close>

type_synonym size_t = "64 word"
type_synonym ptrdiff_t = "64 word"
type_synonym addr = "64 word"
type_synonym byte = "8 word"
type_synonym memory = "addr \<Rightarrow> byte"

text \<open>
  An element type \<open>T\<close> of the templates: \<open>sizeof(T)\<close>, how an object of the type is
  read from and written to its bytes, and the value its default constructor leaves
  (\<open>None\<close> for a type whose default initialisation writes nothing).
\<close>

record 'v ctype =
  sizeof :: size_t
  decode :: "byte list \<Rightarrow> 'v"
  encode :: "'v \<Rightarrow> byte list"
  default_ctor :: "'v option"

text \<open>The element type of \<open>typedef array<unsigned char> buffer\<close>.\<close>

definition unsigned_char :: "byte ctype" where
  "unsigned_char =
     \<lparr>sizeof = 1, decode = (\<lambda>bs. case bs of [] \<Rightarrow> 0 | b # _ \<Rightarrow> b),
      encode = (\<lambda>b. [b]), default_ctor = None\<rparr>"

text \<open>The \<open>k\<close> bytes at address \<open>a\<close>, and writing a list of bytes there.\<close>

definition load :: "memory \<Rightarrow> addr \<Rightarrow> nat \<Rightarrow> byte list" where
  "load m a k = map (\<lambda>j. m (a + of_nat j)) [0..<k]"

definition store :: "memory \<Rightarrow> addr \<Rightarrow> byte list \<Rightarrow> memory" where
  "store m a bs = (\<lambda>x. if unat (x - a) < length bs then bs ! unat (x - a) else m x)"

text \<open>
  The state a program over these sequences runs in: the memory, the blocks handed out
  by \<open>new[]\<close> and not yet released (base address and size in bytes), the log of the
  blocks released by \<open>delete[]\<close>, and the environment \<open>env\<close> the callables of function
  sequences act on.
\<close>

record 'w state =
  mem :: memory
  blocks :: "(addr \<times> nat) list"
  released :: "addr list"
  env :: 'w

text \<open>
  What an expression of element type denotes: a reference to an object in memory
  (\<open>T&\<close>, \<open>const T&\<close>), a value (a prvalue, held by a temporary), or a reference
  whose object has been destroyed.
\<close>

datatype 'v access =
    Ref "'v ctype" addr
  | CRef "'v ctype" addr
  | Val 'v
  | Dangling

text \<open>Reading through an access, and assigning through it.\<close>

fun rvalue :: "'v access \<Rightarrow> 'w state \<Rightarrow> 'v option" where
  "rvalue (Ref T a) s = Some (decode T (load (mem s) a (unat (sizeof T))))"
| "rvalue (CRef T a) s = Some (decode T (load (mem s) a (unat (sizeof T))))"
| "rvalue (Val v) s = Some v"
| "rvalue Dangling s = None"

fun assign :: "'v access \<Rightarrow> 'v \<Rightarrow> 'w state \<Rightarrow> 'w state option" where
  "assign (Ref T a) v s = Some (s\<lparr>mem := store (mem s) a (encode T v)\<rparr>)"
| "assign (CRef T a) v s = None"
| "assign (Val u) v s = None"
| "assign Dangling v s = None"

text \<open>
  A function that returns \<open>value_type\<close> copies the object its return expression
  refers to. A function that returns a reference hands the reference of its return
  expression on; when that expression is a prvalue, the reference is bound to a
  temporary that is destroyed as the function returns.
\<close>

fun return_value :: "'v access \<times> 'w state \<Rightarrow> 'v access \<times> 'w state" where
  "return_value (Ref T a, s) = (Val (decode T (load (mem s) a (unat (sizeof T)))), s)"
| "return_value (CRef T a, s) = (Val (decode T (load (mem s) a (unat (sizeof T)))), s)"
| "return_value (Val v, s) = (Val v, s)"
| "return_value (Dangling, s) = (Dangling, s)"

fun return_ref :: "'v access \<times> 'w state \<Rightarrow> 'v access \<times> 'w state" where
  "return_ref (Ref T a, s) = (Ref T a, s)"
| "return_ref (CRef T a, s) = (CRef T a, s)"
| "return_ref (Val v, s) = (Dangling, s)"
| "return_ref (Dangling, s) = (Dangling, s)"

fun return_const_ref :: "'v access \<times> 'w state \<Rightarrow> 'v access \<times> 'w state" where
  "return_const_ref (Ref T a, s) = (CRef T a, s)"
| "return_const_ref (CRef T a, s) = (CRef T a, s)"
| "return_const_ref (Val v, s) = (Dangling, s)"
| "return_const_ref (Dangling, s) = (Dangling, s)"

section \<open>Position cursors\<close>

text \<open>
  The iterator types of array.h: the raw pointers \<open>T*\<close> and \<open>const T*\<close> of the
  contiguous views, \<open>mem_stride_iterator<T, OffsetN>\<close> (field \<open>_data\<close>),
  \<open>const_mem_stride_iterator<T, OffsetN>\<close> (field \<open>_data\<close>),
  \<open>func_array_iterator<F>\<close> (fields \<open>_func\<close>, \<open>_i\<close>) and
  \<open>const_strided_iterator<IterT>\<close> (fields \<open>_iter\<close>, \<open>_stride\<close>). The template
  arguments \<open>T\<close> and \<open>OffsetN\<close> are carried as arguments. A callable takes the index
  and the environment and returns its result and the environment it leaves.
\<close>

datatype ('w, 'v) cursor =
    ptr "'v ctype" addr
  | const_ptr "'v ctype" addr
  | mem_stride_iterator "'v ctype" size_t addr
  | const_mem_stride_iterator "'v ctype" size_t addr
  | func_array_iterator "size_t \<Rightarrow> 'w \<Rightarrow> 'v \<times> 'w" size_t
  | const_strided_iterator "('w, 'v) cursor" size_t

text \<open>\<open>operator+(size_t n)\<close>.\<close>

fun operator_plus :: "('w, 'v) cursor \<Rightarrow> size_t \<Rightarrow> ('w, 'v) cursor" where
  "operator_plus (ptr T p) n = ptr T (p + sizeof T * n)"
| "operator_plus (const_ptr T p) n = const_ptr T (p + sizeof T * n)"
| "operator_plus (mem_stride_iterator T OffsetN d) n =
     mem_stride_iterator T OffsetN (d + OffsetN * n)"
| "operator_plus (const_mem_stride_iterator T OffsetN d) n =
     const_mem_stride_iterator T OffsetN (d + OffsetN * n)"
| "operator_plus (func_array_iterator f i) n = func_array_iterator f (i + n)"
| "operator_plus (const_strided_iterator it stride) n =
     const_strided_iterator (operator_plus it (stride * n)) stride"

text \<open>\<open>operator+=(size_t n)\<close>: the cursor after the update.\<close>

fun operator_plus_assign :: "('w, 'v) cursor \<Rightarrow> size_t \<Rightarrow> ('w, 'v) cursor" where
  "operator_plus_assign (ptr T p) n = ptr T (p + sizeof T * n)"
| "operator_plus_assign (const_ptr T p) n = const_ptr T (p + sizeof T * n)"
| "operator_plus_assign (mem_stride_iterator T OffsetN d) n =
     mem_stride_iterator T OffsetN (d + OffsetN * n)"
| "operator_plus_assign (const_mem_stride_iterator T OffsetN d) n =
     const_mem_stride_iterator T OffsetN (d + OffsetN * n)"
| "operator_plus_assign (func_array_iterator f i) n = func_array_iterator f (i + n)"
| "operator_plus_assign (const_strided_iterator it stride) n =
     const_strided_iterator (operator_plus_assign it (stride * n)) stride"

text \<open>
  The pre-increment \<open>operator++()\<close>, the one a range-based \<open>for\<close> uses. (The
  post-increment \<open>operator++(int)\<close> of the class cursors is written
  \<open>r = *this; (*this)++; return r;\<close>: it calls itself and takes no part in a
  traversal.)
\<close>

fun operator_inc :: "('w, 'v) cursor \<Rightarrow> ('w, 'v) cursor" where
  "operator_inc (ptr T p) = ptr T (p + sizeof T)"
| "operator_inc (const_ptr T p) = const_ptr T (p + sizeof T)"
| "operator_inc (mem_stride_iterator T OffsetN d) = mem_stride_iterator T OffsetN (d + OffsetN)"
| "operator_inc (const_mem_stride_iterator T OffsetN d) =
     const_mem_stride_iterator T OffsetN (d + OffsetN)"
| "operator_inc (func_array_iterator f i) = operator_plus_assign (func_array_iterator f i) 1"
| "operator_inc (const_strided_iterator it stride) =
     const_strided_iterator (operator_plus_assign it stride) stride"

text \<open>
  \<open>operator==\<close>: the byte-stride cursors compare \<open>_data\<close>, the function cursor
  compares \<open>_i\<close> only, the composed cursor compares \<open>_iter\<close> only. Cursors of
  different types are not comparable.
\<close>

fun operator_eq :: "('w, 'v) cursor \<Rightarrow> ('w, 'v) cursor \<Rightarrow> bool" where
  "operator_eq (ptr T p) (ptr T' q) = (p = q)"
| "operator_eq (const_ptr T p) (const_ptr T' q) = (p = q)"
| "operator_eq (mem_stride_iterator T OffsetN d) (mem_stride_iterator T' OffsetN' d') = (d = d')"
| "operator_eq (const_mem_stride_iterator T OffsetN d) (const_mem_stride_iterator T' OffsetN' d') =
     (d = d')"
| "operator_eq (func_array_iterator f i) (func_array_iterator f' i') = (i = i')"
| "operator_eq (const_strided_iterator it stride) (const_strided_iterator it' stride') =
     operator_eq it it'"
| "operator_eq _ _ = False"

definition operator_neq :: "('w, 'v) cursor \<Rightarrow> ('w, 'v) cursor \<Rightarrow> bool" where
  "operator_neq a b = (\<not> operator_eq a b)"

text \<open>
  \<open>operator-\<close>: the distance of two cursors as a \<open>ptrdiff_t\<close>. Two raw pointers differ
  by the byte distance divided by \<open>sizeof(T)\<close>, a signed division; the byte-stride
  cursors return \<open>_data - iter._data\<close>; the composed cursor divides the distance of the
  inner cursors by the \<open>size_t\<close> \<open>_stride\<close>, an unsigned division that traps at stride 0.
\<close>

fun operator_minus :: "('w, 'v) cursor \<Rightarrow> ('w, 'v) cursor \<Rightarrow> ptrdiff_t option" where
  "operator_minus (ptr T p) (ptr T' q) =
     (if sizeof T = 0 then None else Some (word_of_int (sint (p - q) sdiv uint (sizeof T))))"
| "operator_minus (const_ptr T p) (const_ptr T' q) =
     (if sizeof T = 0 then None else Some (word_of_int (sint (p - q) sdiv uint (sizeof T))))"
| "operator_minus (mem_stride_iterator T OffsetN d) (mem_stride_iterator T' OffsetN' d') =
     Some (d - d')"
| "operator_minus (const_mem_stride_iterator T OffsetN d) (const_mem_stride_iterator T' OffsetN' d') =
     Some (d - d')"
| "operator_minus (func_array_iterator f i) (func_array_iterator f' i') = Some (i - i')"
| "operator_minus (const_strided_iterator it stride) (const_strided_iterator it' stride') =
     (case operator_minus it it' of
        None \<Rightarrow> None
      | Some d \<Rightarrow> if stride = 0 then None else Some (d div stride))"
| "operator_minus _ _ = None"

text \<open>
  \<open>operator[](size_t n)\<close>: the raw pointers and the byte-stride cursors return a
  reference to the object at the computed address; the function cursor invokes
  \<open>_func(_i + n)\<close>; the composed cursor returns \<open>_iter[n * _stride]\<close> by value.
\<close>

fun operator_index :: "('w, 'v) cursor \<Rightarrow> size_t \<Rightarrow> 'w state \<Rightarrow> 'v access \<times> 'w state" where
  "operator_index (ptr T p) n s = (Ref T (p + sizeof T * n), s)"
| "operator_index (const_ptr T p) n s = (CRef T (p + sizeof T * n), s)"
| "operator_index (mem_stride_iterator T OffsetN d) n s = (Ref T (d + OffsetN * n), s)"
| "operator_index (const_mem_stride_iterator T OffsetN d) n s = (CRef T (d + OffsetN * n), s)"
| "operator_index (func_array_iterator f i) n s =
     (case f (i + n) (env s) of (v, w) \<Rightarrow> (Val v, s\<lparr>env := w\<rparr>))"
| "operator_index (const_strided_iterator it stride) n s =
     return_value (operator_index it (n * stride) s)"

text \<open>\<open>operator*()\<close>.\<close>

fun operator_deref :: "('w, 'v) cursor \<Rightarrow> 'w state \<Rightarrow> 'v access \<times> 'w state" where
  "operator_deref (ptr T p) s = (Ref T p, s)"
| "operator_deref (const_ptr T p) s = (CRef T p, s)"
| "operator_deref (mem_stride_iterator T OffsetN d) s = (Ref T d, s)"
| "operator_deref (const_mem_stride_iterator T OffsetN d) s = (CRef T d, s)"
| "operator_deref (func_array_iterator f i) s =
     (case f i (env s) of (v, w) \<Rightarrow> (Val v, s\<lparr>env := w\<rparr>))"
| "operator_deref (const_strided_iterator it stride) s = return_value (operator_deref it s)"

text \<open>
  The conversion of an \<open>iterator\<close> to the \<open>const_iterator\<close> of its sequence:
  \<open>T*\<close> to \<open>const T*\<close>, and the converting constructor of
  \<open>const_mem_stride_iterator\<close>. The other cursors are their own \<open>const_iterator\<close>.
\<close>

fun to_const_iterator :: "('w, 'v) cursor \<Rightarrow> ('w, 'v) cursor" where
  "to_const_iterator (ptr T p) = const_ptr T p"
| "to_const_iterator (mem_stride_iterator T OffsetN d) = const_mem_stride_iterator T OffsetN d"
| "to_const_iterator it = it"

section \<open>Bounded-sequence bases\<close>

record ('w, 'v) const_array_base =
  c_iter :: "('w, 'v) cursor"
  c_size :: size_t

definition const_array_base_begin :: "('w, 'v) const_array_base \<Rightarrow> ('w, 'v) cursor" where
  "const_array_base_begin a = c_iter a"

definition const_array_base_size :: "('w, 'v) const_array_base \<Rightarrow> size_t" where
  "const_array_base_size a = c_size a"

definition const_array_base_end :: "('w, 'v) const_array_base \<Rightarrow> ('w, 'v) cursor" where
  "const_array_base_end a = operator_plus (const_array_base_begin a) (const_array_base_size a)"

definition const_array_base_index ::
  "('w, 'v) const_array_base \<Rightarrow> size_t \<Rightarrow> 'w state \<Rightarrow> 'v access \<times> 'w state" where
  "const_array_base_index a n s = return_const_ref (operator_index (const_array_base_begin a) n s)"

definition const_array_base_empty :: "('w, 'v) const_array_base \<Rightarrow> bool" where
  "const_array_base_empty a = (const_array_base_size a = 0)"

record ('w, 'v) array_base =
  m_iter :: "('w, 'v) cursor"
  m_size :: size_t

definition array_base_begin :: "('w, 'v) array_base \<Rightarrow> ('w, 'v) cursor" where
  "array_base_begin a = m_iter a"

definition array_base_size :: "('w, 'v) array_base \<Rightarrow> size_t" where
  "array_base_size a = m_size a"

definition array_base_end :: "('w, 'v) array_base \<Rightarrow> ('w, 'v) cursor" where
  "array_base_end a = operator_plus (array_base_begin a) (array_base_size a)"

definition array_base_begin_const :: "('w, 'v) array_base \<Rightarrow> ('w, 'v) cursor" where
  "array_base_begin_const a = to_const_iterator (m_iter a)"

definition array_base_end_const :: "('w, 'v) array_base \<Rightarrow> ('w, 'v) cursor" where
  "array_base_end_const a = operator_plus (array_base_begin_const a) (array_base_size a)"

definition array_base_index ::
  "('w, 'v) array_base \<Rightarrow> size_t \<Rightarrow> 'w state \<Rightarrow> 'v access \<times> 'w state" where
  "array_base_index a n s = return_ref (operator_index (array_base_begin a) n s)"

definition array_base_index_const ::
  "('w, 'v) array_base \<Rightarrow> size_t \<Rightarrow> 'w state \<Rightarrow> 'v access \<times> 'w state" where
  "array_base_index_const a n s = return_const_ref (operator_index (array_base_begin_const a) n s)"

definition array_base_empty :: "('w, 'v) array_base \<Rightarrow> bool" where
  "array_base_empty a = (array_base_size a = 0)"

text \<open>
  The statements \<open>x = a[n]\<close> and \<open>a[n] = x\<close> of a caller: the indexing operator,
  then a read or an assignment through what it returned. A read through a dangling
  reference, and an assignment through anything but a \<open>T&\<close>, have no result.
\<close>

definition const_array_base_read ::
  "('w, 'v) const_array_base \<Rightarrow> size_t \<Rightarrow> 'w state \<Rightarrow> 'v option \<times> 'w state" where
  "const_array_base_read a n s =
     (case const_array_base_index a n s of (r, s') \<Rightarrow> (rvalue r s', s'))"

definition array_base_read ::
  "('w, 'v) array_base \<Rightarrow> size_t \<Rightarrow> 'w state \<Rightarrow> 'v option \<times> 'w state" where
  "array_base_read a n s = (case array_base_index a n s of (r, s') \<Rightarrow> (rvalue r s', s'))"

definition array_base_read_const ::
  "('w, 'v) array_base \<Rightarrow> size_t \<Rightarrow> 'w state \<Rightarrow> 'v option \<times> 'w state" where
  "array_base_read_const a n s =
     (case array_base_index_const a n s of (r, s') \<Rightarrow> (rvalue r s', s'))"

definition array_base_write ::
  "('w, 'v) array_base \<Rightarrow> size_t \<Rightarrow> 'v \<Rightarrow> 'w state \<Rightarrow> 'w state option" where
  "array_base_write a n x s = (case array_base_index a n s of (r, s') \<Rightarrow> assign r x s')"

section \<open>Concrete sequences\<close>

text \<open>
  Each constructor hands \<open>(begin, size)\<close> to its base. The default arguments of the
  source are \<open>size = 0\<close> and \<open>stride = 0\<close>.
\<close>

definition array_slice :: "('w, 'v) cursor \<Rightarrow> size_t \<Rightarrow> ('w, 'v) array_base" where
  "array_slice begin sz = \<lparr>m_iter = begin, m_size = sz\<rparr>"

definition const_array_slice :: "('w, 'v) cursor \<Rightarrow> size_t \<Rightarrow> ('w, 'v) const_array_base" where
  "const_array_slice begin sz = \<lparr>c_iter = begin, c_size = sz\<rparr>"

definition const_array_stride ::
  "('w, 'v) cursor \<Rightarrow> size_t \<Rightarrow> size_t \<Rightarrow> ('w, 'v) const_array_base" where
  "const_array_stride begin sz stride =
     \<lparr>c_iter = const_strided_iterator begin stride, c_size = sz\<rparr>"

definition array_view :: "('w, 'v) cursor \<Rightarrow> size_t \<Rightarrow> ('w, 'v) array_base" where
  "array_view begin sz = \<lparr>m_iter = begin, m_size = sz\<rparr>"

definition const_array_view :: "('w, 'v) cursor \<Rightarrow> size_t \<Rightarrow> ('w, 'v) const_array_base" where
  "const_array_view begin sz = \<lparr>c_iter = begin, c_size = sz\<rparr>"

definition const_array_mem_stride ::
  "'v ctype \<Rightarrow> size_t \<Rightarrow> addr \<Rightarrow> size_t \<Rightarrow> ('w, 'v) const_array_base" where
  "const_array_mem_stride T OffsetN begin sz =
     \<lparr>c_iter = const_mem_stride_iterator T OffsetN begin, c_size = sz\<rparr>"

definition array_mem_stride ::
  "'v ctype \<Rightarrow> size_t \<Rightarrow> addr \<Rightarrow> size_t \<Rightarrow> ('w, 'v) array_base" where
  "array_mem_stride T OffsetN begin sz =
     \<lparr>m_iter = mem_stride_iterator T OffsetN begin, m_size = sz\<rparr>"

definition func_array ::
  "(size_t \<Rightarrow> 'w \<Rightarrow> 'v \<times> 'w) \<Rightarrow> size_t \<Rightarrow> ('w, 'v) const_array_base" where
  "func_array func sz = \<lparr>c_iter = func_array_iterator func 0, c_size = sz\<rparr>"

section \<open>The owning array\<close>

text \<open>
  \<open>new T[size]\<close> and \<open>delete[]\<close> belong to the C++ runtime. The address the
  runtime's allocator answers with is an argument \<open>r\<close> of the model (\<open>None\<close> when
  it has no block to give). A request whose size in bytes does not fit a \<open>size_t\<close>,
  and one the allocator refuses, end in an allocation error. The elements are
  default-constructed in ascending order.
\<close>

datatype error = bad_alloc

definition default_construct :: "'v ctype \<Rightarrow> addr \<Rightarrow> memory \<Rightarrow> memory" where
  "default_construct T a m =
     (case default_ctor T of None \<Rightarrow> m | Some d \<Rightarrow> store m a (encode T d))"

fun construct_elements :: "'v ctype \<Rightarrow> addr \<Rightarrow> nat \<Rightarrow> memory \<Rightarrow> memory" where
  "construct_elements T p 0 m = m"
| "construct_elements T p (Suc k) m =
     default_construct T (p + sizeof T * of_nat k) (construct_elements T p k m)"

definition new_array ::
  "'v ctype \<Rightarrow> size_t \<Rightarrow> addr option \<Rightarrow> 'w state \<Rightarrow> error + (addr \<times> 'w state)" where
  "new_array T n r s =
     (if 2 ^ 64 \<le> unat (sizeof T) * unat n then Inl bad_alloc
      else case r of
        None \<Rightarrow> Inl bad_alloc
      | Some p \<Rightarrow>
          Inr (p, s\<lparr>mem := construct_elements T p (unat n) (mem s),
                    blocks := (p, unat (sizeof T) * unat n) # blocks s\<rparr>))"

text \<open>
  \<open>delete[] p\<close>: nothing for a null pointer; the block that starts at \<open>p\<close> is
  released and the release logged; any other pointer is undefined behaviour.
\<close>

fun delete_array :: "('w, 'v) cursor \<Rightarrow> 'w state \<Rightarrow> 'w state option" where
  "delete_array (ptr T p) s =
     (if p = 0 then Some s
      else if p \<in> fst ` set (blocks s)
        then Some (s\<lparr>blocks := filter (\<lambda>b. fst b \<noteq> p) (blocks s), released := p # released s\<rparr>)
      else None)"
| "delete_array _ s = None"

text \<open>
  No sequence but \<open>array\<close> declares a destructor: the implicit one destroys a cursor
  and a \<open>size_t\<close>, and touches nothing else.
\<close>

definition array_base_dtor :: "('w, 'v) array_base \<Rightarrow> 'w state \<Rightarrow> 'w state" where
  "array_base_dtor a s = s"

definition const_array_base_dtor :: "('w, 'v) const_array_base \<Rightarrow> 'w state \<Rightarrow> 'w state" where
  "const_array_base_dtor a s = s"

text \<open>
  \<open>array(size_t size) : BaseT(new T[size], size)\<close> and
  \<open>~array() { delete[] BaseT::begin(); }\<close>. An \<open>array\<close> is an \<open>array_view\<close>
  with no field of its own.
\<close>

definition array ::
  "'v ctype \<Rightarrow> size_t \<Rightarrow> addr option \<Rightarrow> 'w state \<Rightarrow> error + (('w, 'v) array_base \<times> 'w state)" where
  "array T sz r s =
     (case new_array T sz r s of
        Inl e \<Rightarrow> Inl e
      | Inr (p, s') \<Rightarrow> Inr (array_view (ptr T p) sz, s'))"

definition array_dtor :: "('w, 'v) array_base \<Rightarrow> 'w state \<Rightarrow> 'w state option" where
  "array_dtor a s = map_option (array_base_dtor a) (delete_array (array_base_begin a) s)"

section \<open>Traversal\<close>

text \<open>
  \<open>for (it = begin; it != end; ++it)\<close>, the loop of a range-based \<open>for\<close>: the
  cursors it visits, in order. The loop need not end, so it runs on fuel: \<open>None\<close>
  when the fuel runs out before the cursor equals \<open>end\<close>.
\<close>

fun traverse ::
  "nat \<Rightarrow> ('w, 'v) cursor \<Rightarrow> ('w, 'v) cursor \<Rightarrow> ('w, 'v) cursor list option" where
  "traverse 0 it e = (if operator_neq it e then None else Some [])"
| "traverse (Suc fuel) it e =
     (if operator_neq it e then map_option ((#) it) (traverse fuel (operator_inc it) e)
      else Some [])"

text \<open>
  How far one increment moves the position a cursor is compared by: \<open>sizeof(T)\<close>
  bytes for a raw pointer, \<open>OffsetN\<close> bytes for a byte-stride cursor, one index for
  a function cursor, \<open>_stride\<close> steps of the inner cursor for a composed one.
\<close>

fun cursor_step :: "('w, 'v) cursor \<Rightarrow> size_t" where
  "cursor_step (ptr T p) = sizeof T"
| "cursor_step (const_ptr T p) = sizeof T"
| "cursor_step (mem_stride_iterator T OffsetN d) = OffsetN"
| "cursor_step (const_mem_stride_iterator T OffsetN d) = OffsetN"
| "cursor_step (func_array_iterator f i) = 1"
| "cursor_step (const_strided_iterator it stride) = stride * cursor_step it"

text \<open>A state with nothing allocated yet, for the closed instances below.\<close>

definition initial_state :: "'w \<Rightarrow> 'w state" where
  "initial_state w = \<lparr>mem = (\<lambda>a. 0), blocks = [], released = [], env = w\<rparr>"

section \<open>Cursor arithmetic\<close>

lemma operator_plus_assign_eq: "operator_plus_assign it n = operator_plus it n"
  by (induction it arbitrary: n) simp_all

lemma operator_plus_zero: "operator_plus it 0 = it"
  by (induction it) simp_all

lemma operator_plus_plus: "operator_plus (operator_plus it m) n = operator_plus it (m + n)"
  by (induction it arbitrary: m n) (simp_all add: algebra_simps)

lemma operator_inc_eq: "operator_inc it = operator_plus it 1"
  by (cases it) (simp_all add: operator_plus_assign_eq)

lemma cursor_step_plus: "cursor_step (operator_plus it n) = cursor_step it"
  by (induction it arbitrary: n) simp_all

lemma operator_eq_plus:
  "operator_eq (operator_plus it m) (operator_plus it n) = (cursor_step it * m = cursor_step it * n)"
  by (induction it arbitrary: m n) (simp_all add: ac_simps)

lemma operator_index_plus:
  "operator_index (operator_plus it m) n s = operator_index it (m + n) s"
  by (induction it arbitrary: m n) (simp_all add: algebra_simps)

lemma traverse_plus:
  assumes "\<forall>j. 0 < j \<and> j \<le> r \<longrightarrow> cursor_step b * of_nat j \<noteq> 0" and "r \<le> fuel"
  shows "traverse fuel (operator_plus b (of_nat k)) (operator_plus b (of_nat (k + r)))
         = Some (map (\<lambda>i. operator_plus b (of_nat i)) [k..<k + r])"
  using assms
proof (induction r arbitrary: fuel k)
  case 0
  then show ?case by (cases fuel) (simp_all add: operator_neq_def operator_eq_plus)
next
  case (Suc r)
  then obtain f where f: "fuel = Suc f" "r \<le> f" by (cases fuel) auto
  have ne: "cursor_step b * of_nat (Suc r) \<noteq> 0" using Suc.prems(1) by blast
  have neq: "operator_neq (operator_plus b (of_nat k)) (operator_plus b (of_nat (k + Suc r)))"
    using ne by (simp add: operator_neq_def operator_eq_plus algebra_simps)
  have ih: "traverse f (operator_plus b (of_nat (Suc k))) (operator_plus b (of_nat (Suc k + r)))
         = Some (map (\<lambda>i. operator_plus b (of_nat i)) [Suc k..<Suc k + r])"
    using Suc.IH[of f "Suc k"] Suc.prems(1) f(2) by simp
  have inc: "operator_inc (operator_plus b (of_nat k)) = operator_plus b (of_nat (Suc k))"
    by (simp add: operator_inc_eq operator_plus_plus add.commute)
  show ?case
    using neq ih inc f(1) by (simp add: upt_rec[of k])
qed

lemma step_no_wrap:
  assumes "st \<noteq> (0::64 word)" "unat st * n < 2 ^ 64" "0 < j" "j \<le> n"
  shows "st * of_nat j \<noteq> 0"
proof -
  have st: "0 < unat st" using assms(1) by (simp add: unat_gt_0)
  obtain q where q: "unat st = Suc q" using st gr0_implies_Suc by blast
  have "j \<le> unat st * n" using assms(4) by (simp add: q)
  then have jlt: "j < 2 ^ 64" using assms(2) by linarith
  have uj: "unat (of_nat j :: 64 word) = j" using jlt by (simp add: unat_of_nat)
  have "unat st * j \<le> unat st * n" using assms(4) by simp
  then have lt: "unat st * j < 2 ^ 64" using assms(2) by linarith
  have "unat (st * of_nat j) = unat st * j"
    using lt uj by (simp add: unat_mult_lem[THEN iffD1])
  then have "0 < unat (st * of_nat j)" using st assms(3) by simp
  then show ?thesis by (simp add: unat_gt_0)
qed

lemma cursor_step_to_const: "cursor_step (to_const_iterator it) = cursor_step it"
  by (cases it) simp_all

lemma traverse_from_begin:
  assumes "cursor_step b \<noteq> 0" and "unat (cursor_step b) * unat n < 2 ^ 64" and "unat n \<le> fuel"
  shows "traverse fuel b (operator_plus b n)
         = Some (map (\<lambda>k. operator_plus b (of_nat k)) [0..<unat n])"
proof -
  have "\<forall>j. 0 < j \<and> j \<le> unat n \<longrightarrow> cursor_step b * of_nat j \<noteq> 0"
    using step_no_wrap[OF assms(1) assms(2)] by blast
  from traverse_plus[OF this assms(3), of 0] show ?thesis
    by (simp add: operator_plus_zero)
qed

lemma sizeof_unsigned_char: "sizeof unsigned_char = 1"
  by (simp add: unsigned_char_def)

lemma traverse_at_end: "operator_eq it e \<Longrightarrow> traverse fuel it e = Some []"
  by (cases fuel) (simp_all add: operator_neq_def)

lemma operator_eq_step_zero:
  assumes "cursor_step b = 0"
  shows "operator_eq b (operator_plus b n)"
proof -
  have "operator_eq (operator_plus b 0) (operator_plus b n)"
    using assms by (simp add: operator_eq_plus)
  then show ?thesis by (simp add: operator_plus_zero)
qed

lemma traverse_step_zero:
  assumes "cursor_step b = 0"
  shows "traverse fuel b (operator_plus b n) = Some []"
  by (rule traverse_at_end) (rule operator_eq_step_zero[OF assms])

section \<open>Memory\<close>

lemma load_store_same:
  assumes "length bs = k" "k \<le> 2 ^ 64"
  shows "load (store m a bs) a k = bs"
proof (rule nth_equalityI)
  show "length (load (store m a bs) a k) = length bs" using assms by (simp add: load_def)
next
  fix i assume "i < length (load (store m a bs) a k)"
  then have i: "i < k" by (simp add: load_def)
  then have "i < 2 ^ 64" using assms(2) by linarith
  then have "unat (of_nat i :: 64 word) = i" by (simp add: unat_of_nat)
  then show "load (store m a bs) a k ! i = bs ! i"
    using i assms(1) by (simp add: load_def store_def)
qed

lemma load_store_other:
  assumes "\<forall>j<k. length bs \<le> unat (b + of_nat j - a)"
  shows "load (store m a bs) b k = load m b k"
  using assms by (auto simp: load_def store_def dest: leD)

lemma word_of_nat_unat_len:
  fixes N :: nat
  assumes "N < 2 ^ 64"
  shows "unat (of_nat N :: 64 word) = N"
  using assms by (simp add: unat_of_nat)

lemma elem_disjoint:
  fixes p s i j :: "64 word"
  assumes "i \<noteq> j" "unat i < n" "unat j < n" "unat s * n \<le> 2 ^ 64" "l < unat s"
  shows "unat s \<le> unat (p + s * j + of_nat l - (p + s * i))"
proof -
  let ?S = "unat s" and ?I = "unat i" and ?J = "unat j"
  have D: "p + s * j + of_nat l - (p + s * i) = s * j - s * i + of_nat l" by simp
  have ne: "?I \<noteq> ?J" using assms(1) by (simp add: word_unat_eq_iff)
  show ?thesis
  proof (cases "?I < ?J")
    case True
    let ?N = "?S * (?J - ?I) + l"
    have "?N < ?S * (?J - ?I) + ?S" using assms(5) by simp
    also have "\<dots> = ?S * (?J - ?I + 1)" by (simp add: algebra_simps)
    also have "\<dots> \<le> ?S * n" using assms(3) True by (intro mult_le_mono2) linarith
    finally have lt: "?N < 2 ^ 64" using assms(4) by linarith
    have "(of_nat (?J - ?I) :: 64 word) = j - i"
      using True by (simp add: of_nat_diff)
    then have "(of_nat ?N :: 64 word) = s * j - s * i + of_nat l"
      by (simp add: right_diff_distrib)
    then have "unat (s * j - s * i + of_nat l) = ?N"
      using word_of_nat_unat_len[OF lt] by simp
    moreover obtain q where q: "?J - ?I = Suc q"
      using True by (metis Suc_diff_Suc)
    then have "?S \<le> ?N" by simp
    ultimately show ?thesis by (simp only: D)
  next
    case False
    then have lt: "?J < ?I" using ne by linarith
    have le: "?S * (?I - ?J + 1) \<le> ?S * n" using assms(2) lt by (intro mult_le_mono2) linarith
    then have le2: "?S * (?I - ?J) + ?S \<le> 2 ^ 64" using assms(4) by (simp add: algebra_simps)
    let ?N = "2 ^ 64 - ?S * (?I - ?J) + l"
    obtain q where q: "?I - ?J = Suc q"
      using lt by (metis Suc_diff_Suc)
    then have big: "?S \<le> ?S * (?I - ?J)" by simp
    have Nlt: "?N < 2 ^ 64" using assms(5) big le2 by linarith
    have "(of_nat ?N :: 64 word) = of_nat (2 ^ 64 - ?S * (?I - ?J)) + of_nat l" by simp
    also have "\<dots> = of_nat (2 ^ 64) - of_nat (?S * (?I - ?J)) + of_nat l"
      using le2 by (subst of_nat_diff) simp_all
    also have "\<dots> = 0 - s * (i - j) + of_nat l"
      using lt by (simp add: of_nat_diff)
    also have "\<dots> = s * j - s * i + of_nat l"
      by (simp add: right_diff_distrib)
    finally have "unat (s * j - s * i + of_nat l) = ?N"
      using word_of_nat_unat_len[OF Nlt] by simp
    moreover have "?S \<le> ?N" using le2 by linarith
    ultimately show ?thesis by (simp only: D)
  qed
qed

section \<open>The owning array and its storage\<close>

lemma array_InrD:
  assumes "array T n r s = Inr (a, s1)"
  shows "\<exists>p. r = Some p \<and> a = array_view (ptr T p) n
           \<and> s1 = s\<lparr>mem := construct_elements T p (unat n) (mem s),
                     blocks := (p, unat (sizeof T) * unat n) # blocks s\<rparr>
           \<and> unat (sizeof T) * unat n < 2 ^ 64"
  using assms by (auto simp: array_def new_array_def split: if_splits option.splits sum.splits)

lemma array_view_read:
  "array_base_read (array_view (ptr T p) n) i s
     = (Some (decode T (load (mem s) (p + sizeof T * i) (unat (sizeof T)))), s)"
  by (simp add: array_base_read_def array_base_index_def array_base_begin_def array_view_def)

lemma array_view_write:
  "array_base_write (array_view (ptr T p) n) i x s
     = Some (s\<lparr>mem := store (mem s) (p + sizeof T * i) (encode T x)\<rparr>)"
  by (simp add: array_base_write_def array_base_index_def array_base_begin_def array_view_def)

lemma unat_sizeof_le: "unat (sizeof T) \<le> 2 ^ 64"
proof -
  have "unat (sizeof T) < 2 ^ LENGTH(64)" by (rule unsigned_less)
  then show ?thesis by simp
qed

lemma construct_elements_read:
  assumes "default_ctor T = Some d" "length (encode T d) = unat (sizeof T)"
    and "unat (sizeof T) * k \<le> 2 ^ 64" "k \<le> 2 ^ 64" "i < k"
  shows "load (construct_elements T p k m) (p + sizeof T * of_nat i) (unat (sizeof T)) = encode T d"
  using assms(3-5)
proof (induction k)
  case 0
  then show ?case by simp
next
  case (Suc k)
  let ?M = "construct_elements T p k m"
  have step: "construct_elements T p (Suc k) m = store ?M (p + sizeof T * of_nat k) (encode T d)"
    by (simp add: default_construct_def assms(1))
  show ?case
  proof (cases "i = k")
    case True
    show ?thesis unfolding step True
      by (rule load_store_same[OF assms(2) unat_sizeof_le])
  next
    case False
    then have ik: "i < k" using Suc.prems(3) by simp
    have klt: "k < 2 ^ 64" using Suc.prems(2) by simp
    have uk: "unat (of_nat k :: 64 word) = k" using klt by (simp add: unat_of_nat)
    have ui: "unat (of_nat i :: 64 word) = i" using klt ik by (simp add: unat_of_nat)
    have ne: "(of_nat k :: 64 word) \<noteq> of_nat i" using uk ui False by metis
    have dis: "\<forall>l<unat (sizeof T). length (encode T d)
                 \<le> unat (p + sizeof T * of_nat i + of_nat l - (p + sizeof T * of_nat k))"
    proof (intro allI impI)
      fix l assume l: "l < unat (sizeof T)"
      show "length (encode T d)
              \<le> unat (p + sizeof T * of_nat i + of_nat l - (p + sizeof T * of_nat k))"
        unfolding assms(2)
        by (rule elem_disjoint[where n = "Suc k"]) (use ne uk ui ik l Suc.prems(1) in simp_all)
    qed
    have "unat (sizeof T) * k \<le> 2 ^ 64" using Suc.prems(1) by simp
    then have ih: "load ?M (p + sizeof T * of_nat i) (unat (sizeof T)) = encode T d"
      using Suc.IH klt ik by simp
    show ?thesis unfolding step using load_store_other[OF dis] ih by simp
  qed
qed

lemma delete_array_live:
  assumes "p \<noteq> 0" "p \<notin> fst ` set bs"
  shows "delete_array (ptr T p) (s\<lparr>blocks := (p, k) # bs\<rparr>)
         = Some (s\<lparr>blocks := bs, released := p # released s\<rparr>)"
proof -
  have "filter (\<lambda>b. fst b \<noteq> p) bs = bs"
    using assms(2) by (induction bs) auto
  then show ?thesis using assms(1) by simp
qed

lemma example_array:
  "array (unsigned_char\<lparr>default_ctor := Some 5\<rparr>) 2 (Some 4096) (initial_state ())
    = Inr (array_view (ptr (unsigned_char\<lparr>default_ctor := Some 5\<rparr>) 4096) 2,
           (initial_state ())\<lparr>mem := construct_elements (unsigned_char\<lparr>default_ctor := Some 5\<rparr>) 4096
                                    (unat (2 :: 64 word)) (mem (initial_state ())),
             blocks := (4096, unat (sizeof (unsigned_char\<lparr>default_ctor := Some 5\<rparr>)) * unat (2 :: 64 word))
                         # blocks (initial_state ())\<rparr>)"
  by (simp add: array_def new_array_def unsigned_char_def)

lemma example_single:
  "array unsigned_char 1 (Some 4096) (initial_state ())
    = Inr (array_view (ptr unsigned_char 4096) 1 :: (unit, byte) array_base,
           (initial_state ())\<lparr>mem := construct_elements unsigned_char 4096
                                    (unat (1 :: 64 word)) (mem (initial_state ())),
             blocks := (4096, unat (sizeof unsigned_char) * unat (1 :: 64 word))
                         # blocks (initial_state ())\<rparr>)"
  by (simp add: array_def new_array_def unsigned_char_def)

lemma example_buffer:
  "array unsigned_char 2 (Some 4096) (initial_state ())
    = Inr (array_view (ptr unsigned_char 4096) 2 :: (unit, byte) array_base,
           (initial_state ())\<lparr>mem := construct_elements unsigned_char 4096
                                    (unat (2 :: 64 word)) (mem (initial_state ())),
             blocks := (4096, unat (sizeof unsigned_char) * unat (2 :: 64 word))
                         # blocks (initial_state ())\<rparr>)"
  by (simp add: array_def new_array_def unsigned_char_def)

section \<open>Values returned through the cursors\<close>

lemma snd_return_value: "snd (return_value x) = snd x"
  by (cases x rule: return_value.cases) simp_all

lemma rvalue_return_value: "rvalue (fst (return_value x)) (snd x) = rvalue (fst x) (snd x)"
  by (cases x rule: return_value.cases) simp_all

lemma length_visit:
  "map_option length (map_option ((#) x) t) = map_option Suc (map_option length t)"
  by (cases t) simp_all

lemma traverse_const_ptr_length:
  "map_option length (traverse fuel (const_ptr T p) (const_ptr T q))
   = map_option length (traverse fuel (ptr T p :: ('w, 'v) cursor) (ptr T q))"
proof (induction fuel arbitrary: p)
  case 0
  show ?case by (simp add: operator_neq_def)
next
  case (Suc fuel)
  show ?case
    by (simp add: operator_neq_def length_visit Suc.IH)
qed

lemma func_array_index:
  "const_array_base_index (func_array f n) i s = (Dangling, s\<lparr>env := snd (f i (env s))\<rparr>)
   \<and> const_array_base_read (func_array f n) i s = (None, s\<lparr>env := snd (f i (env s))\<rparr>)
   \<and> operator_index (const_array_base_begin (func_array f n)) i s
       = (Val (fst (f i (env s))), s\<lparr>env := snd (f i (env s))\<rparr>)
   \<and> operator_deref (operator_plus (const_array_base_begin (func_array f n)) i) s
       = (Val (fst (f i (env s))), s\<lparr>env := snd (f i (env s))\<rparr>)"
  by (simp add: const_array_base_index_def const_array_base_read_def func_array_def
      const_array_base_begin_def split: prod.splits)

section \<open>The properties of the specification\<close>

text \<open>
  C1, as the code has it. Every sequence is a value of one of the two bases, so the
  statement is about all of them. \<open>end()\<close> is \<open>begin()\<close> advanced by \<open>size()\<close>,
  always. The traversal from \<open>begin()\<close> to \<open>end()\<close> visits the \<open>size()\<close> cursors
  \<open>begin() + 0\<close>, ..., \<open>begin() + (size() - 1)\<close> when one increment moves the
  cursor (its step is not 0) and \<open>size()\<close> steps do not wrap around \<open>2 ^ 64\<close>.
  When the step is 0 (a stride of 0, a byte offset of 0), \<open>end()\<close> equals \<open>begin()\<close>
  and the traversal visits nothing, whatever \<open>size()\<close> is.
\<close>

theorem begin_end_traversal:
  "const_array_base_end c = operator_plus (const_array_base_begin c) (const_array_base_size c)
   \<and> array_base_end a = operator_plus (array_base_begin a) (array_base_size a)
   \<and> array_base_end_const a = operator_plus (array_base_begin_const a) (array_base_size a)
   \<and> (cursor_step (const_array_base_begin c) \<noteq> 0
        \<and> unat (cursor_step (const_array_base_begin c)) * unat (const_array_base_size c) < 2 ^ 64
        \<and> unat (const_array_base_size c) \<le> fuel
      \<longrightarrow> traverse fuel (const_array_base_begin c) (const_array_base_end c)
          = Some (map (\<lambda>k. operator_plus (const_array_base_begin c) (of_nat k))
                    [0..<unat (const_array_base_size c)]))
   \<and> (cursor_step (array_base_begin a) \<noteq> 0
        \<and> unat (cursor_step (array_base_begin a)) * unat (array_base_size a) < 2 ^ 64
        \<and> unat (array_base_size a) \<le> fuel
      \<longrightarrow> traverse fuel (array_base_begin a) (array_base_end a)
            = Some (map (\<lambda>k. operator_plus (array_base_begin a) (of_nat k))
                      [0..<unat (array_base_size a)])
          \<and> traverse fuel (array_base_begin_const a) (array_base_end_const a)
            = Some (map (\<lambda>k. operator_plus (array_base_begin_const a) (of_nat k))
                      [0..<unat (array_base_size a)]))
   \<and> (cursor_step (const_array_base_begin c) = 0
      \<longrightarrow> operator_eq (const_array_base_begin c) (const_array_base_end c)
          \<and> traverse fuel (const_array_base_begin c) (const_array_base_end c) = Some [])
   \<and> (cursor_step (array_base_begin a) = 0
      \<longrightarrow> operator_eq (array_base_begin a) (array_base_end a)
          \<and> traverse fuel (array_base_begin a) (array_base_end a) = Some []
          \<and> operator_eq (array_base_begin_const a) (array_base_end_const a)
          \<and> traverse fuel (array_base_begin_const a) (array_base_end_const a) = Some [])"
  by (simp add: const_array_base_end_def array_base_end_def array_base_end_const_def
      array_base_begin_const_def array_base_begin_def cursor_step_to_const traverse_from_begin
      traverse_step_zero operator_eq_step_zero)

text \<open>
  An instance: a slice of stride 2 and size 3 over bytes at address 4096, and a view of
  2 bytes there.
\<close>

theorem begin_end_traversal_witness:
  "traverse 3 (const_array_base_begin (const_array_stride (const_ptr unsigned_char 4096) 3 2 :: (unit, byte) const_array_base))
      (const_array_base_end (const_array_stride (const_ptr unsigned_char 4096) 3 2))
    = Some [const_strided_iterator (const_ptr unsigned_char 4096) 2,
            const_strided_iterator (const_ptr unsigned_char 4098) 2,
            const_strided_iterator (const_ptr unsigned_char 4100) 2]
   \<and> traverse 3 (array_base_begin (array_view (ptr unsigned_char 4096) 2 :: (unit, byte) array_base))
      (array_base_end (array_view (ptr unsigned_char 4096) 2))
    = Some [ptr unsigned_char 4096, ptr unsigned_char 4097]"
proof -
  let ?c = "const_array_stride (const_ptr unsigned_char 4096) 3 2 :: (unit, byte) const_array_base"
  let ?a = "array_view (ptr unsigned_char 4096) 2 :: (unit, byte) array_base"
  have bc: "const_array_base_begin ?c = const_strided_iterator (const_ptr unsigned_char 4096) 2"
    and sc: "const_array_base_size ?c = 3"
    by (simp_all add: const_array_stride_def const_array_base_begin_def const_array_base_size_def)
  have ba: "array_base_begin ?a = ptr unsigned_char 4096" and sa: "array_base_size ?a = 2"
    by (simp_all add: array_view_def array_base_begin_def array_base_size_def)
  have u3: "[0..<3::nat] = [0, 1, 2]" and u2: "[0..<2::nat] = [0, 1]"
    by (simp_all add: upt_rec)
  have hc: "cursor_step (const_array_base_begin ?c) \<noteq> 0
        \<and> unat (cursor_step (const_array_base_begin ?c)) * unat (const_array_base_size ?c) < 2 ^ 64
        \<and> unat (const_array_base_size ?c) \<le> 3"
    by (simp add: bc sc sizeof_unsigned_char)
  have ha: "cursor_step (array_base_begin ?a) \<noteq> 0
        \<and> unat (cursor_step (array_base_begin ?a)) * unat (array_base_size ?a) < 2 ^ 64
        \<and> unat (array_base_size ?a) \<le> 3"
    by (simp add: ba sa sizeof_unsigned_char)
  from begin_end_traversal [of ?c ?a 3] hc ha
  have "traverse 3 (const_array_base_begin ?c) (const_array_base_end ?c)
          = Some (map (\<lambda>k. operator_plus (const_array_base_begin ?c) (of_nat k))
                    [0..<unat (const_array_base_size ?c)])"
    and "traverse 3 (array_base_begin ?a) (array_base_end ?a)
            = Some (map (\<lambda>k. operator_plus (array_base_begin ?a) (of_nat k))
                      [0..<unat (array_base_size ?a)])"
    by blast+
  then show ?thesis
    by (simp add: bc sc ba sa u3 u2 sizeof_unsigned_char)
qed

text \<open>
  C1 as stated fails for a slice of stride 0, the default stride of
  \<open>const_array_stride\<close>: its size is 3, its \<open>end()\<close> equals its \<open>begin()\<close>, and the
  traversal visits nothing. A byte-stride sequence of byte offset 0 does the same.
\<close>

theorem stride_zero_traversal_counterexample:
  "unat (const_array_base_size (const_array_stride (const_ptr unsigned_char 4096) 3 0 :: (unit, byte) const_array_base)) = 3
   \<and> traverse 3 (const_array_base_begin (const_array_stride (const_ptr unsigned_char 4096) 3 0 :: (unit, byte) const_array_base))
      (const_array_base_end (const_array_stride (const_ptr unsigned_char 4096) 3 0)) = Some []
   \<and> unat (const_array_base_size (const_array_mem_stride unsigned_char 0 4096 3 :: (unit, byte) const_array_base)) = 3
   \<and> traverse 3 (const_array_base_begin (const_array_mem_stride unsigned_char 0 4096 3 :: (unit, byte) const_array_base))
      (const_array_base_end (const_array_mem_stride unsigned_char 0 4096 3)) = Some []"
  by (simp add: const_array_stride_def const_array_mem_stride_def const_array_base_begin_def
      const_array_base_end_def const_array_base_size_def traverse_at_end)

text \<open>
  C2. When the constructor of \<open>array\<close> succeeds for length \<open>n\<close>, a block of
  \<open>n * sizeof(T)\<close> bytes has been allocated at \<open>begin()\<close> and \<open>size()\<close> is \<open>n\<close>;
  where \<open>T\<close> has a default constructor, every element below \<open>n\<close> reads as the value
  it leaves. A value \<open>x\<close> of the element type written at an index \<open>i\<close> is the value
  read at \<open>i\<close>, and for \<open>i\<close> below \<open>n\<close> every element at another index \<open>j\<close>
  below \<open>n\<close> reads as before.
\<close>

theorem array_elements_writable:
  assumes "array T n r s = Inr (a, s1)"
  shows "(\<exists>p. r = Some p \<and> array_base_begin a = ptr T p
            \<and> blocks s1 = (p, unat (sizeof T) * unat n) # blocks s)
       \<and> array_base_size a = n
       \<and> (\<forall>i d. unat i < unat n \<and> default_ctor T = Some d
                \<and> length (encode T d) = unat (sizeof T)
              \<longrightarrow> fst (array_base_read a i s1) = Some (decode T (encode T d)))
       \<and> (\<forall>i x. length (encode T x) = unat (sizeof T) \<and> decode T (encode T x) = x
              \<longrightarrow> (\<exists>s2. array_base_write a i x s1 = Some s2
                     \<and> fst (array_base_read a i s2) = Some x
                     \<and> (\<forall>j. unat i < unat n \<and> unat j < unat n \<and> j \<noteq> i
                            \<longrightarrow> fst (array_base_read a j s2) = fst (array_base_read a j s1))))"
proof -
  from array_InrD[OF assms(1)] obtain p where
    r: "r = Some p" and a: "a = array_view (ptr T p) n"
    and s1: "s1 = s\<lparr>mem := construct_elements T p (unat n) (mem s),
                     blocks := (p, unat (sizeof T) * unat n) # blocks s\<rparr>"
    and fit: "unat (sizeof T) * unat n < 2 ^ 64"
    by blast
  have c1: "\<exists>p. r = Some p \<and> array_base_begin a = ptr T p
            \<and> blocks s1 = (p, unat (sizeof T) * unat n) # blocks s"
    using r a s1 by (simp add: array_base_begin_def array_view_def)
  have c2: "array_base_size a = n" using a by (simp add: array_base_size_def array_view_def)
  have c3: "\<forall>i d. unat i < unat n \<and> default_ctor T = Some d
                \<and> length (encode T d) = unat (sizeof T)
              \<longrightarrow> fst (array_base_read a i s1) = Some (decode T (encode T d))"
  proof (intro allI impI)
    fix i :: "64 word" and d
    assume d: "unat i < unat n \<and> default_ctor T = Some d
                \<and> length (encode T d) = unat (sizeof T)"
    have "unat n \<le> 2 ^ 64" using unsigned_less[of n, where 'a = nat] by simp
    then have "load (construct_elements T p (unat n) (mem s)) (p + sizeof T * of_nat (unat i))
            (unat (sizeof T)) = encode T d"
      using construct_elements_read[of T d "unat n" "unat i" p "mem s"] d fit by simp
    then show "fst (array_base_read a i s1) = Some (decode T (encode T d))"
      by (simp add: a s1 array_view_read)
  qed
  have c4: "\<forall>i x. length (encode T x) = unat (sizeof T) \<and> decode T (encode T x) = x
              \<longrightarrow> (\<exists>s2. array_base_write a i x s1 = Some s2
                     \<and> fst (array_base_read a i s2) = Some x
                     \<and> (\<forall>j. unat i < unat n \<and> unat j < unat n \<and> j \<noteq> i
                            \<longrightarrow> fst (array_base_read a j s2) = fst (array_base_read a j s1)))"
  proof (intro allI impI)
    fix i :: "64 word" and x
    assume x: "length (encode T x) = unat (sizeof T) \<and> decode T (encode T x) = x"
    then have len: "length (encode T x) = unat (sizeof T)" and dec: "decode T (encode T x) = x"
      by simp_all
    let ?s2 = "s1\<lparr>mem := store (mem s1) (p + sizeof T * i) (encode T x)\<rparr>"
    have w: "array_base_write a i x s1 = Some ?s2" by (simp add: a array_view_write)
    have same: "load (store (mem s1) (p + sizeof T * i) (encode T x)) (p + sizeof T * i)
                  (unat (sizeof T)) = encode T x"
      by (rule load_store_same[OF len unat_sizeof_le])
    have rd: "fst (array_base_read a i ?s2) = Some x"
      using same dec by (simp add: a array_view_read)
    have other: "\<forall>j. unat i < unat n \<and> unat j < unat n \<and> j \<noteq> i
                   \<longrightarrow> fst (array_base_read a j ?s2) = fst (array_base_read a j s1)"
    proof (intro allI impI)
      fix j :: "64 word"
      assume j: "unat i < unat n \<and> unat j < unat n \<and> j \<noteq> i"
      have dis: "\<forall>l<unat (sizeof T). length (encode T x)
                   \<le> unat (p + sizeof T * j + of_nat l - (p + sizeof T * i))"
      proof (intro allI impI)
        fix l assume l: "l < unat (sizeof T)"
        show "length (encode T x) \<le> unat (p + sizeof T * j + of_nat l - (p + sizeof T * i))"
          unfolding len
          by (rule elem_disjoint[where n = "unat n"]) (use j l fit in auto)
      qed
      have "load (store (mem s1) (p + sizeof T * i) (encode T x)) (p + sizeof T * j)
              (unat (sizeof T)) = load (mem s1) (p + sizeof T * j) (unat (sizeof T))"
        by (rule load_store_other[OF dis])
      then show "fst (array_base_read a j ?s2) = fst (array_base_read a j s1)"
        by (simp add: a array_view_read)
    qed
    show "\<exists>s2. array_base_write a i x s1 = Some s2
             \<and> fst (array_base_read a i s2) = Some x
             \<and> (\<forall>j. unat i < unat n \<and> unat j < unat n \<and> j \<noteq> i
                    \<longrightarrow> fst (array_base_read a j s2) = fst (array_base_read a j s1))"
      using w rd other by blast
  qed
  show ?thesis using c1 c2 c3 c4 by blast
qed

text \<open>
  Two instances: an array of two bytes whose default constructor leaves 5, where 7 is
  written at index 1; and an array of one byte, where 7 is written at index 0.
\<close>

theorem array_elements_writable_witness:
  "array (unsigned_char\<lparr>default_ctor := Some 5\<rparr>) 2 (Some 4096) (initial_state ())
    = Inr (array_view (ptr (unsigned_char\<lparr>default_ctor := Some 5\<rparr>) 4096) 2,
           (initial_state ())\<lparr>mem := construct_elements (unsigned_char\<lparr>default_ctor := Some 5\<rparr>) 4096
                                    (unat (2 :: 64 word)) (mem (initial_state ())),
             blocks := (4096, unat (sizeof (unsigned_char\<lparr>default_ctor := Some 5\<rparr>)) * unat (2 :: 64 word))
                         # blocks (initial_state ())\<rparr>)
   \<and> fst (array_base_read (array_view (ptr (unsigned_char\<lparr>default_ctor := Some 5\<rparr>) 4096) 2) 1
        ((initial_state ())\<lparr>mem := construct_elements (unsigned_char\<lparr>default_ctor := Some 5\<rparr>) 4096
                                    (unat (2 :: 64 word)) (mem (initial_state ())),
             blocks := (4096, unat (sizeof (unsigned_char\<lparr>default_ctor := Some 5\<rparr>)) * unat (2 :: 64 word))
                         # blocks (initial_state ())\<rparr>)) = Some 5
   \<and> (\<exists>s2. array_base_write (array_view (ptr (unsigned_char\<lparr>default_ctor := Some 5\<rparr>) 4096) 2) 1 7
        ((initial_state ())\<lparr>mem := construct_elements (unsigned_char\<lparr>default_ctor := Some 5\<rparr>) 4096
                                    (unat (2 :: 64 word)) (mem (initial_state ())),
             blocks := (4096, unat (sizeof (unsigned_char\<lparr>default_ctor := Some 5\<rparr>)) * unat (2 :: 64 word))
                         # blocks (initial_state ())\<rparr>) = Some s2
       \<and> fst (array_base_read (array_view (ptr (unsigned_char\<lparr>default_ctor := Some 5\<rparr>) 4096) 2) 1 s2) = Some 7
       \<and> fst (array_base_read (array_view (ptr (unsigned_char\<lparr>default_ctor := Some 5\<rparr>) 4096) 2) 0 s2) = Some 5)
   \<and> array unsigned_char 1 (Some 4096) (initial_state ())
    = Inr (array_view (ptr unsigned_char 4096) 1,
           (initial_state ())\<lparr>mem := construct_elements unsigned_char 4096
                                    (unat (1 :: 64 word)) (mem (initial_state ())),
             blocks := (4096, unat (sizeof unsigned_char) * unat (1 :: 64 word))
                         # blocks (initial_state ())\<rparr>)
   \<and> (\<exists>s2. array_base_write (array_view (ptr unsigned_char 4096) 1) 0 7
        ((initial_state ())\<lparr>mem := construct_elements unsigned_char 4096
                                    (unat (1 :: 64 word)) (mem (initial_state ())),
             blocks := (4096, unat (sizeof unsigned_char) * unat (1 :: 64 word))
                         # blocks (initial_state ())\<rparr>) = Some s2
       \<and> fst (array_base_read (array_view (ptr unsigned_char 4096) 1) 0 s2) = Some 7)"
proof -
  let ?T = "unsigned_char\<lparr>default_ctor := Some (5 :: byte)\<rparr>"
  let ?a = "array_view (ptr ?T 4096) 2 :: (unit, byte) array_base"
  let ?s1 = "(initial_state ())\<lparr>mem := construct_elements ?T 4096 (unat (2 :: 64 word)) (mem (initial_state ())),
             blocks := (4096, unat (sizeof ?T) * unat (2 :: 64 word)) # blocks (initial_state ())\<rparr>"
  let ?b = "array_view (ptr unsigned_char 4096) 1 :: (unit, byte) array_base"
  let ?t1 = "(initial_state ())\<lparr>mem := construct_elements unsigned_char 4096 (unat (1 :: 64 word)) (mem (initial_state ())),
             blocks := (4096, unat (sizeof unsigned_char) * unat (1 :: 64 word)) # blocks (initial_state ())\<rparr>"
  have T: "default_ctor ?T = Some 5" "length (encode ?T 5) = unat (sizeof ?T)"
    "decode ?T (encode ?T 5) = 5" "length (encode ?T 7) = unat (sizeof ?T)"
    "decode ?T (encode ?T 7) = 7"
    by (simp_all add: unsigned_char_def)
  have U: "length (encode unsigned_char 7) = unat (sizeof unsigned_char)"
    "decode unsigned_char (encode unsigned_char 7) = 7"
    by (simp_all add: unsigned_char_def)
  have i: "unat (1 :: 64 word) < unat (2 :: 64 word)" "unat (0 :: 64 word) < unat (2 :: 64 word)"
    "(0 :: 64 word) \<noteq> 1" by simp_all
  note w = array_elements_writable[OF example_array]
  note v = array_elements_writable[OF example_single]
  have dflt: "\<And>k. unat k < unat (2 :: 64 word) \<Longrightarrow> fst (array_base_read ?a k ?s1) = Some 5"
    using w T(1-3) by metis
  have r1: "fst (array_base_read ?a 1 ?s1) = Some 5" using dflt i(1) by blast
  have r0: "fst (array_base_read ?a 0 ?s1) = Some 5" using dflt i(2) by blast
  from w T(4,5) obtain s2 where s2: "array_base_write ?a 1 7 ?s1 = Some s2"
    "fst (array_base_read ?a 1 s2) = Some 7"
    "\<forall>j. unat (1 :: 64 word) < unat (2 :: 64 word) \<and> unat j < unat (2 :: 64 word) \<and> j \<noteq> 1
        \<longrightarrow> fst (array_base_read ?a j s2) = fst (array_base_read ?a j ?s1)"
    by blast
  have "fst (array_base_read ?a 0 s2) = fst (array_base_read ?a 0 ?s1)"
    using s2(3) i by blast
  then have two: "\<exists>s2. array_base_write ?a 1 7 ?s1 = Some s2
       \<and> fst (array_base_read ?a 1 s2) = Some 7 \<and> fst (array_base_read ?a 0 s2) = Some 5"
    using s2(1,2) r0 by auto
  from v U obtain t2 where "array_base_write ?b 0 7 ?t1 = Some t2"
    "fst (array_base_read ?b 0 t2) = Some 7"
    by blast
  then have one: "\<exists>s2. array_base_write ?b 0 7 ?t1 = Some s2
       \<and> fst (array_base_read ?b 0 s2) = Some 7"
    by blast
  show ?thesis using example_array r1 two example_single one by blast
qed

text \<open>
  C3. A mutable view constructed from \<open>begin()\<close> and \<open>size()\<close> of an owning array has
  the size of the array; its indexing operator returns the reference the array's
  returns, so both read the same value at every index; a write through the view is
  read back through the array, and a write through the array through the view. The
  write allocates nothing.
\<close>

theorem view_aliases_array:
  assumes "array T n r s = Inr (a, s1)"
    and "length (encode T x) = unat (sizeof T)" and "decode T (encode T x) = x"
  shows "array_base_size (array_view (array_base_begin a) (array_base_size a)) = array_base_size a
       \<and> array_base_index (array_view (array_base_begin a) (array_base_size a)) i s1
           = array_base_index a i s1
       \<and> array_base_read (array_view (array_base_begin a) (array_base_size a)) i s1
           = array_base_read a i s1
       \<and> (\<exists>s2. array_base_write (array_view (array_base_begin a) (array_base_size a)) i x s1 = Some s2
              \<and> fst (array_base_read a i s2) = Some x \<and> blocks s2 = blocks s1)
       \<and> (\<exists>s2. array_base_write a i x s1 = Some s2
              \<and> fst (array_base_read (array_view (array_base_begin a) (array_base_size a)) i s2) = Some x)"
proof -
  from array_InrD[OF assms(1)] obtain p where a: "a = array_view (ptr T p) n" by blast
  have v: "array_view (array_base_begin a) (array_base_size a) = a"
    by (simp add: a array_view_def array_base_begin_def array_base_size_def)
  have same: "load (store (mem s1) (p + sizeof T * i) (encode T x)) (p + sizeof T * i) (unat (sizeof T))
              = encode T x"
    by (rule load_store_same[OF assms(2) unat_sizeof_le])
  have "\<exists>s2. array_base_write a i x s1 = Some s2
              \<and> fst (array_base_read a i s2) = Some x \<and> blocks s2 = blocks s1"
    using same assms(3) by (simp add: a array_view_read array_view_write)
  then show ?thesis unfolding v by auto
qed

text \<open>
  An instance: 7 written at index 1 through a view of an array of two bytes.
\<close>

theorem view_aliases_array_witness:
  "array unsigned_char 2 (Some 4096) (initial_state ())
    = Inr (array_view (ptr unsigned_char 4096) 2,
           (initial_state ())\<lparr>mem := construct_elements unsigned_char 4096
                                    (unat (2 :: 64 word)) (mem (initial_state ())),
             blocks := (4096, unat (sizeof unsigned_char) * unat (2 :: 64 word))
                         # blocks (initial_state ())\<rparr>)
   \<and> (\<exists>s2. array_base_write
          (array_view (array_base_begin (array_view (ptr unsigned_char 4096) 2 :: (unit, byte) array_base))
             (array_base_size (array_view (ptr unsigned_char 4096) 2 :: (unit, byte) array_base))) 1 7
        ((initial_state ())\<lparr>mem := construct_elements unsigned_char 4096
                                    (unat (2 :: 64 word)) (mem (initial_state ())),
             blocks := (4096, unat (sizeof unsigned_char) * unat (2 :: 64 word))
                         # blocks (initial_state ())\<rparr>) = Some s2
       \<and> fst (array_base_read (array_view (ptr unsigned_char 4096) 2) 1 s2) = Some 7)"
proof -
  note ex = example_buffer
  have T: "length (encode unsigned_char 7) = unat (sizeof unsigned_char)"
    "decode unsigned_char (encode unsigned_char 7) = 7"
    by (simp_all add: unsigned_char_def)
  from view_aliases_array[OF ex T, of 1] ex show ?thesis by blast
qed

text \<open>
  C4, as the code has it. The size of an index-strided slice is the \<open>size\<close> argument
  of its constructor, which never sees the length of the source. The cursor of the
  slice yields at position \<open>i\<close>, by value, what the source cursor yields at position
  \<open>i * k\<close>: the same value, with the same effect on the state.
\<close>

theorem strided_slice_size_and_cursor:
  "const_array_base_size (const_array_stride b sz k) = sz
   \<and> operator_index (const_array_base_begin (const_array_stride b sz k)) i s
       = return_value (operator_index b (i * k) s)
   \<and> rvalue (fst (operator_index (const_array_base_begin (const_array_stride b sz k)) i s))
         (snd (operator_index (const_array_base_begin (const_array_stride b sz k)) i s))
       = rvalue (fst (operator_index b (i * k) s)) (snd (operator_index b (i * k) s))
   \<and> snd (operator_index (const_array_base_begin (const_array_stride b sz k)) i s)
       = snd (operator_index b (i * k) s)"
  by (simp add: const_array_base_size_def const_array_stride_def const_array_base_begin_def
      rvalue_return_value snd_return_value)

text \<open>
  C4 as stated fails: over a source of length 6, a slice of stride 2 constructed with
  size 2 has size 2, and \<open>6 / 2\<close> is 3.
\<close>

theorem strided_slice_size_counterexample:
  "const_array_base_size (const_array_view (const_ptr unsigned_char 4096) 6 :: (unit, byte) const_array_base) div 2 = 3
   \<and> const_array_base_size (const_array_stride
        (const_array_base_begin (const_array_view (const_ptr unsigned_char 4096) 6 :: (unit, byte) const_array_base)) 2 2) = 2"
  by (simp add: const_array_base_size_def const_array_view_def const_array_stride_def)

text \<open>
  C5. Indexing a byte-stride sequence, read-only or mutable, of element type \<open>T\<close> and
  byte offset \<open>B\<close> at \<open>i\<close> returns a reference to address \<open>base + i * B\<close>, and a
  read through it decodes the \<open>sizeof(T)\<close> bytes there.
\<close>

theorem byte_stride_index_reads_at_offset:
  "const_array_base_index (const_array_mem_stride T B base n) i s = (CRef T (base + i * B), s)
   \<and> const_array_base_read (const_array_mem_stride T B base n) i s
       = (Some (decode T (load (mem s) (base + i * B) (unat (sizeof T)))), s)
   \<and> array_base_index (array_mem_stride T B base n) i s = (Ref T (base + i * B), s)
   \<and> array_base_read (array_mem_stride T B base n) i s
       = (Some (decode T (load (mem s) (base + i * B) (unat (sizeof T)))), s)"
  by (simp add: const_array_base_index_def const_array_base_read_def const_array_mem_stride_def
      const_array_base_begin_def array_base_index_def array_base_read_def array_mem_stride_def
      array_base_begin_def mult.commute)

text \<open>
  C6 at a function sequence whose callable returns its index and counts its
  invocations in the environment. \<open>const_array_base::operator[]\<close> returns
  \<open>const value_type&\<close>, and \<open>func_array_iterator::operator[]\<close> returns
  \<open>value_type\<close>: the read \<open>sequence[1]\<close> invokes the callable once and is a read
  through a reference to a temporary that is gone. The cursor \<open>begin()[1]\<close> returns
  the callable's result, and invokes it again at each read.
\<close>

theorem func_array_index_dangles:
  "const_array_base_read (func_array (\<lambda>i w. (i, Suc w)) 2) 1 (initial_state 0)
     = (None, (initial_state 0)\<lparr>env := 1\<rparr>)
   \<and> operator_index (const_array_base_begin (func_array (\<lambda>i w. (i, Suc w)) 2)) 1 (initial_state 0)
     = (Val 1, (initial_state 0)\<lparr>env := 1\<rparr>)
   \<and> operator_index (const_array_base_begin (func_array (\<lambda>i w. (i, Suc w)) 2)) 1
        (snd (operator_index (const_array_base_begin (func_array (\<lambda>i w. (i, Suc w)) 2)) 1
           (initial_state 0)))
     = (Val 1, (initial_state 0)\<lparr>env := 2\<rparr>)"
  by (simp add: func_array_index initial_state_def)

text \<open>
  What holds of a subrange for every source: the indexing operator of the slice built
  from \<open>source.begin() + offset\<close> returns at \<open>i\<close> what the source's returns at
  \<open>offset + i\<close>, with the same effect on the state, and the cursors agree. Over a
  cursor into storage, the read is the element of the source at that position.
\<close>

lemma subrange_same_access:
  "array_base_size (array_slice (operator_plus (array_base_begin src) offset) len) = len
   \<and> array_base_index (array_slice (operator_plus (array_base_begin src) offset) len) i s
       = array_base_index src (offset + i) s
   \<and> array_base_read (array_slice (operator_plus (array_base_begin src) offset) len) i s
       = array_base_read src (offset + i) s
   \<and> array_base_write (array_slice (operator_plus (array_base_begin src) offset) len) i x s
       = array_base_write src (offset + i) x s
   \<and> const_array_base_size (const_array_slice (operator_plus (const_array_base_begin csrc) offset) len) = len
   \<and> const_array_base_index (const_array_slice (operator_plus (const_array_base_begin csrc) offset) len) i s
       = const_array_base_index csrc (offset + i) s
   \<and> const_array_base_read (const_array_slice (operator_plus (const_array_base_begin csrc) offset) len) i s
       = const_array_base_read csrc (offset + i) s
   \<and> operator_index (operator_plus b offset) i s = operator_index b (offset + i) s
   \<and> array_base_read (array_slice (operator_plus (ptr T p) offset) len) i s
       = (Some (decode T (load (mem s) (p + sizeof T * (offset + i)) (unat (sizeof T)))), s)"
  by (simp add: array_base_size_def array_slice_def distrib_left add.assoc array_base_index_def array_base_begin_def
      array_base_read_def array_base_write_def const_array_base_size_def const_array_slice_def
      const_array_base_index_def const_array_base_begin_def const_array_base_read_def
      operator_index_plus)

lemma subrange_storage_read:
  "array_base_read (array_slice (operator_plus (ptr T p) offset) len) i s
     = (Some (decode T (load (mem s) (p + sizeof T * (offset + i)) (unat (sizeof T)))), s)
   \<and> array_base_read (array_slice (operator_plus (mem_stride_iterator T B p) offset) len) i s
     = (Some (decode T (load (mem s) (p + B * (offset + i)) (unat (sizeof T)))), s)
   \<and> const_array_base_read (const_array_slice (operator_plus (const_ptr T p) offset) len) i s
     = (Some (decode T (load (mem s) (p + sizeof T * (offset + i)) (unat (sizeof T)))), s)
   \<and> const_array_base_read
         (const_array_slice (operator_plus (const_mem_stride_iterator T B p) offset) len) i s
     = (Some (decode T (load (mem s) (p + B * (offset + i)) (unat (sizeof T)))), s)"
  by (simp add: array_base_read_def array_base_index_def array_base_begin_def array_slice_def
      const_array_base_read_def const_array_base_index_def const_array_base_begin_def
      const_array_slice_def distrib_left add.assoc)

text \<open>
  C7 at a subrange of a function sequence whose callable returns its index and counts
  its invocations: \<open>sub\<close> is built from \<open>source.begin() + 1\<close> and length 2. The read
  \<open>sub[0]\<close> invokes the callable once and is a read through a reference to a
  temporary that is gone, as the read \<open>source[1]\<close> is: it yields no element. The
  cursors \<open>sub.begin()[0]\<close> and \<open>source.begin()[1]\<close> both return the callable's
  result at 1.
\<close>

theorem subrange_of_func_array_dangles:
  "const_array_base_read
      (const_array_slice
         (operator_plus (const_array_base_begin (func_array (\<lambda>i w. (i, Suc w)) 3)) 1) 2)
      0 (initial_state 0)
     = (None, (initial_state 0)\<lparr>env := 1\<rparr>)
   \<and> const_array_base_read (func_array (\<lambda>i w. (i, Suc w)) 3) 1 (initial_state 0)
     = (None, (initial_state 0)\<lparr>env := 1\<rparr>)
   \<and> operator_index
        (const_array_base_begin
           (const_array_slice
              (operator_plus (const_array_base_begin (func_array (\<lambda>i w. (i, Suc w)) 3)) 1) 2))
        0 (initial_state 0)
     = (Val 1, (initial_state 0)\<lparr>env := 1\<rparr>)
   \<and> operator_index (const_array_base_begin (func_array (\<lambda>i w. (i, Suc w)) 3)) 1
        (initial_state 0)
     = (Val 1, (initial_state 0)\<lparr>env := 1\<rparr>)"
  by (simp add: const_array_base_read_def const_array_base_index_def const_array_slice_def
      const_array_base_begin_def func_array_def initial_state_def)

text \<open>
  C8. The mutable view constructed from \<open>begin()\<close> and \<open>size()\<close> of an owning array
  is the array's own base, so every operation gives on it what it gives on the array.
  The read-only view constructed from the array's \<open>const\<close> \<open>begin()\<close> and its
  \<open>size()\<close> agrees with the array on \<open>size\<close>, \<open>empty\<close>, \<open>begin\<close>, \<open>end\<close>,
  indexing, reads, and the number of cursors a traversal visits.
\<close>

theorem array_is_a_view:
  assumes "array T n r s = Inr (a, s1)"
  shows "array_view (array_base_begin a) (array_base_size a) = a
       \<and> const_array_base_size (const_array_view (array_base_begin_const a) (array_base_size a))
           = array_base_size a
       \<and> const_array_base_empty (const_array_view (array_base_begin_const a) (array_base_size a))
           = array_base_empty a
       \<and> const_array_base_begin (const_array_view (array_base_begin_const a) (array_base_size a))
           = array_base_begin_const a
       \<and> const_array_base_end (const_array_view (array_base_begin_const a) (array_base_size a))
           = array_base_end_const a
       \<and> const_array_base_index (const_array_view (array_base_begin_const a) (array_base_size a)) i s'
           = array_base_index_const a i s'
       \<and> const_array_base_read (const_array_view (array_base_begin_const a) (array_base_size a)) i s'
           = array_base_read a i s'
       \<and> array_base_read_const a i s' = array_base_read a i s'
       \<and> map_option length (traverse fuel
             (const_array_base_begin (const_array_view (array_base_begin_const a) (array_base_size a)))
             (const_array_base_end (const_array_view (array_base_begin_const a) (array_base_size a))))
           = map_option length (traverse fuel (array_base_begin a) (array_base_end a))
       \<and> (array_base_empty a \<longleftrightarrow> n = 0)"
proof -
  from array_InrD[OF assms(1)] obtain p where a: "a = array_view (ptr T p) n" by blast
  show ?thesis
    by (simp add: a array_view_def const_array_view_def array_base_begin_def array_base_size_def
        array_base_begin_const_def const_array_base_size_def const_array_base_empty_def
        array_base_empty_def const_array_base_begin_def const_array_base_end_def
        array_base_end_const_def array_base_end_def const_array_base_index_def
        array_base_index_const_def const_array_base_read_def array_base_read_def
        array_base_read_const_def array_base_index_def traverse_const_ptr_length)
qed

text \<open>
  An instance: an array of two bytes and the read-only view of it.
\<close>

theorem array_is_a_view_witness:
  "array unsigned_char 2 (Some 4096) (initial_state ())
    = Inr (array_view (ptr unsigned_char 4096) 2,
           (initial_state ())\<lparr>mem := construct_elements unsigned_char 4096
                                    (unat (2 :: 64 word)) (mem (initial_state ())),
             blocks := (4096, unat (sizeof unsigned_char) * unat (2 :: 64 word))
                         # blocks (initial_state ())\<rparr>)
   \<and> const_array_base_read
         (const_array_view (array_base_begin_const (array_view (ptr unsigned_char 4096) 2 :: (unit, byte) array_base))
            (array_base_size (array_view (ptr unsigned_char 4096) 2 :: (unit, byte) array_base))) 1 (initial_state ())
       = array_base_read (array_view (ptr unsigned_char 4096) 2) 1 (initial_state ())"
proof -
  note ex = example_buffer
  from array_is_a_view[OF ex, of 1 "initial_state ()"] ex show ?thesis by blast
qed

text \<open>
  C9. The destructor of an owning array releases the block its constructor allocated:
  the block leaves the live blocks and the release is logged once; a second
  \<open>delete[]\<close> of the same pointer is undefined. Constructing the array releases
  nothing, the destructor of any other sequence leaves the state as it is, and after
  a view of the array is destroyed the array is destroyed as before.
\<close>

theorem array_storage_released_once:
  assumes "array T n (Some p) s = Inr (a, s1)" and "p \<noteq> 0" and "p \<notin> fst ` set (blocks s)"
  shows "released s1 = released s
       \<and> array_dtor a s1 = Some (s1\<lparr>blocks := blocks s, released := p # released s\<rparr>)
       \<and> array_dtor a (s1\<lparr>blocks := blocks s, released := p # released s\<rparr>) = None
       \<and> (\<forall>b. array_base_dtor b s1 = s1)
       \<and> (\<forall>c. const_array_base_dtor c s1 = s1)
       \<and> array_dtor a (array_base_dtor (array_view (array_base_begin a) (array_base_size a)) s1)
           = Some (s1\<lparr>blocks := blocks s, released := p # released s\<rparr>)"
proof -
  from array_InrD[OF assms(1)] have a: "a = array_view (ptr T p) n"
    and s1: "s1 = s\<lparr>mem := construct_elements T p (unat n) (mem s),
                     blocks := (p, unat (sizeof T) * unat n) # blocks s\<rparr>"
    by auto
  have d: "delete_array (ptr T p) s1 = Some (s1\<lparr>blocks := blocks s, released := p # released s\<rparr>)"
    using delete_array_live[OF assms(2,3), where T = T
        and s = "s\<lparr>mem := construct_elements T p (unat n) (mem s)\<rparr>"]
    by (simp add: s1)
  have d2: "delete_array (ptr T p) (s1\<lparr>blocks := blocks s, released := p # released s\<rparr>) = None"
    using assms(2,3) by simp
  show ?thesis using d d2
    by (simp add: a s1 array_dtor_def array_base_dtor_def const_array_base_dtor_def
        array_base_begin_def array_view_def)
qed

text \<open>
  An instance: an array of two bytes at address 4096, constructed and destroyed.
\<close>

theorem array_storage_released_once_witness:
  "array unsigned_char 2 (Some 4096) (initial_state ())
    = Inr (array_view (ptr unsigned_char 4096) 2,
           (initial_state ())\<lparr>mem := construct_elements unsigned_char 4096
                                    (unat (2 :: 64 word)) (mem (initial_state ())),
             blocks := (4096, unat (sizeof unsigned_char) * unat (2 :: 64 word))
                         # blocks (initial_state ())\<rparr>)
   \<and> map_option released (array_dtor (array_view (ptr unsigned_char 4096) 2 :: (unit, byte) array_base)
        ((initial_state ())\<lparr>mem := construct_elements unsigned_char 4096
                                    (unat (2 :: 64 word)) (mem (initial_state ())),
             blocks := (4096, unat (sizeof unsigned_char) * unat (2 :: 64 word))
                         # blocks (initial_state ())\<rparr>)) = Some [4096]
   \<and> map_option blocks (array_dtor (array_view (ptr unsigned_char 4096) 2 :: (unit, byte) array_base)
        ((initial_state ())\<lparr>mem := construct_elements unsigned_char 4096
                                    (unat (2 :: 64 word)) (mem (initial_state ())),
             blocks := (4096, unat (sizeof unsigned_char) * unat (2 :: 64 word))
                         # blocks (initial_state ())\<rparr>)) = Some []"
proof -
  note ex = example_buffer
  have h: "(4096 :: 64 word) \<noteq> 0" "(4096 :: 64 word) \<notin> fst ` set (blocks (initial_state ()))"
    by (simp_all add: initial_state_def)
  have e: "blocks (initial_state ()) = []" "released (initial_state ()) = []"
    by (simp_all add: initial_state_def)
  note d = array_storage_released_once[OF ex h, THEN conjunct2, THEN conjunct1]
  show ?thesis unfolding d using ex by (simp add: e)
qed

text \<open>
  C10. The distance of two byte-stride cursors, of the mutable and of the read-only
  kind, is the distance of their addresses in bytes: a cursor advanced by \<open>n\<close>
  positions is \<open>n * OffsetN\<close> away from where it started, not \<open>n\<close>; with
  \<open>OffsetN = 4\<close> two positions are a distance of 8.
\<close>

theorem mem_stride_distance_in_bytes:
  "operator_minus (operator_plus (mem_stride_iterator T B d) n) (mem_stride_iterator T B d)
     = Some (n * B)
   \<and> operator_minus (operator_plus (const_mem_stride_iterator T B d) n)
        (const_mem_stride_iterator T B d) = Some (n * B)
   \<and> operator_minus (operator_plus (mem_stride_iterator T 4 d) 2) (mem_stride_iterator T 4 d)
        = Some 8
   \<and> operator_minus (operator_plus (const_mem_stride_iterator T 4 d) 2)
        (const_mem_stride_iterator T 4 d) = Some 8"
  by (simp add: mult.commute)

end
